theory Spec2Isabelle
  imports Main
begin

section \<open>JavaScript values, errors and objects\<close>

text \<open>
  The values that flow through \<^verbatim>\<open>app/user.js\<close>: tokens, keys and OAuth state strings come
  from JSON bodies, the URL query and local storage, so each may be a string or be missing.
  An absent property reads as \<open>Undefined\<close>; \<open>!!v\<close> is \<open>truthy v\<close>; \<open>!==\<close> on these
  primitives is inequality of the constructors.
\<close>

datatype jsval = Undefined | Null | Bool bool | Num int | Str string

fun truthy :: "jsval \<Rightarrow> bool" where
  "truthy Undefined = False"
| "truthy Null = False"
| "truthy (Bool b) = b"
| "truthy (Num n) = (n \<noteq> 0)"
| "truthy (Str s) = (s \<noteq> [])"

text \<open>A thrown \<^verbatim>\<open>Error\<close>; the handlers only ever inspect its \<^verbatim>\<open>message\<close>.\<close>

datatype error = Error (message: string)

text \<open>A plain JS object with primitive properties: \<open>{}\<close> is \<open>Map.empty\<close>.\<close>

type_synonym jsobj = "string \<rightharpoonup> jsval"

definition js_get :: "jsobj \<Rightarrow> string \<Rightarrow> jsval" where
  "js_get obj k = (case obj k of None \<Rightarrow> Undefined | Some v \<Rightarrow> v)"

section \<open>Local persisted state\<close>

record owned_file =
  file_id :: string
  file_name :: string
  file_url :: string
  file_type :: string
  expiresAt :: nat

text \<open>
  The storage object handed to \<^verbatim>\<open>new User(storage)\<close>: string items behind
  \<^verbatim>\<open>get/set/remove\<close>, the persisted \<^verbatim>\<open>user\<close> record (\<open>None\<close> when nothing was persisted), the
  list of owned files and the two counters the transfer handlers bump.
\<close>

record storage =
  items :: "string \<rightharpoonup> string"
  user :: "jsobj option"
  files :: "owned_file list"
  totalUploads :: nat
  totalDownloads :: nat

text \<open>
  Modelled from the spec: \<^verbatim>\<open>storage.get\<close>, \<^verbatim>\<open>storage.remove\<close>, \<^verbatim>\<open>storage.clearLocalFiles\<close> and
  \<^verbatim>\<open>storage.addFile\<close> (\<^verbatim>\<open>app/storage.js\<close> is not among the sources). The spec lists them as
  the interface of the local persisted state, \<^verbatim>\<open>get/set/remove(key)\<close>, \<^verbatim>\<open>addFile\<close>,
  \<^verbatim>\<open>clearLocalFiles()\<close>, without a value for a key that is not set; as with
  \<^verbatim>\<open>localStorage.getItem\<close>, such a key reads as \<open>Null\<close>.
\<close>

definition storage_get :: "string \<Rightarrow> storage \<Rightarrow> jsval" where
  "storage_get k s = (case items s k of None \<Rightarrow> Null | Some v \<Rightarrow> Str v)"

definition storage_set :: "string \<Rightarrow> string \<Rightarrow> storage \<Rightarrow> storage" where
  "storage_set k v s = s\<lparr>items := (items s)(k \<mapsto> v)\<rparr>"

definition storage_remove :: "string \<Rightarrow> storage \<Rightarrow> storage" where
  "storage_remove k s = s\<lparr>items := (items s)(k := None)\<rparr>"

definition clearLocalFiles :: "storage \<Rightarrow> storage" where
  "clearLocalFiles s = s\<lparr>files := []\<rparr>"


text \<open>
  What \<^verbatim>\<open>storage.merge\<close> reports. The merge itself is not among the sources; every function
  below that calls it takes it as the parameter \<open>merge\<close>, of the shape the spec gives it,
  \<^verbatim>\<open>merge(list) -> {incoming, outgoing, downloadCount}\<close>: the argument is \<open>None\<close> for the call
  \<^verbatim>\<open>merge()\<close> without a list, and the store it leaves behind is returned next to the flags.
  As in that signature, the merge always resolves with its three flags.
\<close>

record changes =
  c_incoming :: bool
  c_outgoing :: bool
  c_downloadCount :: bool

type_synonym merge_fn = "owned_file list option \<Rightarrow> storage \<Rightarrow> changes \<times> storage"

section \<open>The User object\<close>

text \<open>
  The ciphertext \<^verbatim>\<open>encryptStream\<close> yields is kept symbolic: the key and the serialised list.
\<close>

datatype cipher = Encrypted jsval "owned_file list"

text \<open>The network requests \<^verbatim>\<open>user.js\<close> issues, in the order they are issued.\<close>

datatype net_call =
    TokenFetch jsval jsval
  | UserinfoFetch jsval
  | GetFileList jsval
  | SetFileList jsval cipher

text \<open>
  \<open>data\<close> is \<^verbatim>\<open>this.data\<close>, \<open>storage\<close> is \<^verbatim>\<open>this.storage\<close>, and \<open>net\<close> logs the requests made so
  far. The constructor sets \<^verbatim>\<open>this.data = storage.user || {}\<close> and the setter of \<^verbatim>\<open>info\<close> only
  ever stores objects, so \<^verbatim>\<open>this.data\<close> is always an object and the getter
  \<^verbatim>\<open>this.data || this.storage.user || {}\<close> returns it. The module-level \<^verbatim>\<open>storage\<close> that
  \<^verbatim>\<open>finishLogin\<close> reads \<^verbatim>\<open>oauthState\<close> from is the singleton the application also passes to the
  constructor, so both names denote the one store of this record.
\<close>

record user_session =
  data :: jsobj
  storage :: storage
  net :: "net_call list"

definition constructor :: "storage \<Rightarrow> user_session" where
  "constructor s = \<lparr>data = (case user s of None \<Rightarrow> Map.empty | Some d \<Rightarrow> d), storage = s, net = []\<rparr>"

definition info :: "user_session \<Rightarrow> jsobj" where
  "info u = data u"

definition set_info :: "jsobj \<Rightarrow> user_session \<Rightarrow> user_session" where
  "set_info d u = u\<lparr>data := d, storage := (storage u)\<lparr>user := Some d\<rparr>\<rparr>"

definition loggedIn :: "user_session \<Rightarrow> bool" where
  "loggedIn u = truthy (js_get (info u) ''access_token'')"

definition bearerToken :: "user_session \<Rightarrow> jsval" where
  "bearerToken u = js_get (info u) ''access_token''"

definition request :: "net_call \<Rightarrow> user_session \<Rightarrow> user_session" where
  "request c u = u\<lparr>net := net u @ [c]\<rparr>"

subsection \<open>finishLogin\<close>

text \<open>
  The outcomes of the three awaited steps of one \<^verbatim>\<open>finishLogin\<close> call: the token request with
  its \<^verbatim>\<open>json()\<close>, the userinfo request with its \<^verbatim>\<open>json()\<close> and the assignment into the parsed
  object, and \<^verbatim>\<open>getFileListKey(this.storage, auth.keys_jwe)\<close> (\<^verbatim>\<open>app/fxa.js\<close> is not among the
  sources; the spec gives it as \<^verbatim>\<open>getFileListKey(storage, wrappedKeyFromProvider) -> key\<close>).
  \<open>Inl\<close> is a rejected promise or a throw.
\<close>

record login_env =
  token_response :: "error + jsobj"
  userinfo_response :: "error + jsobj"
  getFileListKey :: "storage \<Rightarrow> jsval \<Rightarrow> error + jsval"

definition finishLogin ::
  "login_env \<Rightarrow> jsval \<Rightarrow> jsval \<Rightarrow> user_session \<Rightarrow> (error + unit) \<times> user_session" where
  "finishLogin env code state u =
    (let localState = storage_get ''oauthState'' (storage u);
         u1 = u\<lparr>storage := storage_remove ''oauthState'' (storage u)\<rparr>
     in if state \<noteq> localState then (Inl (Error ''state mismatch''), u1)
        else
          let u2 = request (TokenFetch code (storage_get ''pkceVerifier'' (storage u1))) u1
          in (case token_response env of
                Inl e \<Rightarrow> (Inl e, u2)
              | Inr auth \<Rightarrow>
                  (let u3 = request (UserinfoFetch (js_get auth ''access_token'')) u2
                   in (case userinfo_response env of
                         Inl e \<Rightarrow> (Inl e, u3)
                       | Inr userInfo \<Rightarrow>
                           (case getFileListKey env (storage u3) (js_get auth ''keys_jwe'') of
                              Inl e \<Rightarrow> (Inl e, u3)
                            | Inr key \<Rightarrow>
                                (let u4 = set_info (userInfo(''access_token'' \<mapsto> js_get auth ''access_token'',
                                                             ''fileListKey'' \<mapsto> key)) u3
                                 in (Inr (), u4\<lparr>storage := storage_remove ''pkceVerifier'' (storage u4)\<rparr>)))))))"

subsection \<open>logout and syncFileList\<close>

definition logout :: "user_session \<Rightarrow> user_session" where
  "logout u = set_info Map.empty (u\<lparr>storage := clearLocalFiles (storage u)\<rparr>)"

text \<open>
  The object \<^verbatim>\<open>syncFileList\<close> resolves with. A property the object does not have is \<open>None\<close>
  (it reads as \<^verbatim>\<open>undefined\<close>).
\<close>

record sync_result =
  incoming :: "bool option"
  outgoing :: "bool option"
  downloadCount :: "bool option"

definition of_changes :: "changes \<Rightarrow> sync_result" where
  "of_changes c = \<lparr>incoming = Some (c_incoming c), outgoing = Some (c_outgoing c),
                   downloadCount = Some (c_downloadCount c)\<rparr>"

text \<open>
  The outcomes of the awaited steps of one \<^verbatim>\<open>syncFileList\<close> call: \<open>manifest\<close> is what the first
  \<^verbatim>\<open>try\<close> block ends with (\<^verbatim>\<open>getFileList\<close>, \<^verbatim>\<open>decryptStream\<close>, \<^verbatim>\<open>JSON.parse\<close>), \<open>encrypt_error\<close> an
  exception of the serialise-and-encrypt step, \<open>upload_error\<close> an exception of \<^verbatim>\<open>setFileList\<close>.
\<close>

record sync_env =
  manifest :: "error + owned_file list"
  encrypt_error :: "error option"
  upload_error :: "error option"

text \<open>The second \<^verbatim>\<open>try\<close> block; its \<^verbatim>\<open>catch\<close> is empty.\<close>

definition sync_upload :: "sync_env \<Rightarrow> user_session \<Rightarrow> user_session" where
  "sync_upload env u =
    (case encrypt_error env of
       Some e \<Rightarrow> u
     | None \<Rightarrow>
         (let u1 = request (SetFileList (bearerToken u)
                     (Encrypted (js_get (info u) ''fileListKey'') (files (storage u)))) u
          in (case upload_error env of Some e \<Rightarrow> u1 | None \<Rightarrow> u1)))"

text \<open>From \<^verbatim>\<open>changes = await this.storage.merge(list)\<close> to the end.\<close>

definition sync_merge ::
  "merge_fn \<Rightarrow> sync_env \<Rightarrow> owned_file list \<Rightarrow> user_session \<Rightarrow> sync_result \<times> user_session" where
  "sync_merge merge env list u =
    (case merge (Some list) (storage u) of
       (c, s) \<Rightarrow>
         (let u1 = u\<lparr>storage := s\<rparr>
          in if \<not> c_outgoing c then (of_changes c, u1)
             else (of_changes c, sync_upload env u1)))"

definition syncFileList ::
  "merge_fn \<Rightarrow> sync_env \<Rightarrow> user_session \<Rightarrow> sync_result \<times> user_session" where
  "syncFileList merge env u =
    (if \<not> loggedIn u then
       (case merge None (storage u) of (c, s) \<Rightarrow> (of_changes c, u\<lparr>storage := s\<rparr>))
     else
       (let u1 = request (GetFileList (bearerToken u)) u
        in (case manifest env of
              Inl e \<Rightarrow>
                (if message e = ''401''
                 then (\<lparr>incoming = Some True, outgoing = None, downloadCount = None\<rparr>, logout u1)
                 else sync_merge merge env [] u1)
            | Inr list \<Rightarrow> sync_merge merge env list u1)))"

text \<open>
  The value of \<^verbatim>\<open>list\<close> when the first \<^verbatim>\<open>try\<close> block is left without returning, and the test
  of its \<^verbatim>\<open>catch\<close> block, as functions of the outcome.
\<close>

definition remote_list :: "sync_env \<Rightarrow> owned_file list" where
  "remote_list env = (case manifest env of Inl e \<Rightarrow> [] | Inr list \<Rightarrow> list)"

definition fails_401 :: "sync_env \<Rightarrow> bool" where
  "fails_401 env = (case manifest env of Inl e \<Rightarrow> message e = ''401'' | Inr list \<Rightarrow> False)"

subsection \<open>The merge contract of the spec, and two stores that meet it\<close>


text \<open>
  A store whose merge prunes the entries that have expired at the time \<open>now\<close>, and reports
  an outgoing change when it pruned one.
\<close>

definition prune_merge :: "nat \<Rightarrow> merge_fn" where
  "prune_merge now l s =
     (\<lparr>c_incoming = False, c_outgoing = (filter (\<lambda>f. expiresAt f \<le> now) (files s) \<noteq> []),
       c_downloadCount = False\<rparr>,
      s\<lparr>files := filter (\<lambda>f. \<not> expiresAt f \<le> now) (files s)\<rparr>)"


section \<open>The upload and download handlers\<close>




datatype transfer_event = Progress | Encrypting | Decrypting | Complete










section \<open>Concrete sessions and outcomes\<close>

text \<open>The inputs on which the theorems below are run.\<close>

definition file_a :: owned_file where
  "file_a = \<lparr>file_id = ''a1'', file_name = ''a.txt'', file_url = ''https://send.example/download/a1'',
             file_type = ''click'', expiresAt = 100\<rparr>"

definition empty_storage :: storage where
  "empty_storage = \<lparr>items = Map.empty, user = None, files = [], totalUploads = 0, totalDownloads = 0\<rparr>"

text \<open>A logged-in session that owns one file.\<close>

definition alice :: user_session where
  "alice = \<lparr>data = [''access_token'' \<mapsto> Str ''tok'', ''fileListKey'' \<mapsto> Str ''key''],
            storage = empty_storage\<lparr>user := Some [''access_token'' \<mapsto> Str ''tok'', ''fileListKey'' \<mapsto> Str ''key''],
                                     files := [file_a]\<rparr>,
            net = []\<rparr>"

text \<open>A session without an account that owns one file.\<close>

definition anonymous :: user_session where
  "anonymous = constructor (empty_storage\<lparr>files := [file_a]\<rparr>)"

text \<open>
  The session as \<^verbatim>\<open>login\<close> leaves it before the redirect: the OAuth state and the PKCE verifier
  are stored.
\<close>

definition pending_login :: user_session where
  "pending_login =
     constructor (storage_set ''pkceVerifier'' ''ver1'' (storage_set ''oauthState'' ''st8'' empty_storage))"

definition env_401 :: sync_env where
  "env_401 = \<lparr>manifest = Inl (Error ''401''), encrypt_error = None, upload_error = None\<rparr>"

definition env_offline :: sync_env where
  "env_offline = \<lparr>manifest = Inl (Error ''Failed to fetch''), encrypt_error = None,
                  upload_error = Some (Error ''Failed to fetch'')\<rparr>"

definition env_online :: sync_env where
  "env_online = \<lparr>manifest = Inr [file_a], encrypt_error = None, upload_error = None\<rparr>"

definition login_offline :: login_env where
  "login_offline = \<lparr>token_response = Inl (Error ''Failed to fetch''),
                    userinfo_response = Inl (Error ''Failed to fetch''),
                    getFileListKey = (\<lambda>s jwe. Inl (Error ''Failed to fetch''))\<rparr>"





section \<open>Frame lemmas\<close>

lemma request_keeps:
  "data (request c u) = data u \<and> storage (request c u) = storage u
   \<and> net (request c u) = net u @ [c]"
  by (simp add: request_def)



lemma logout_clears:
  "data (logout u) = Map.empty \<and> user (storage (logout u)) = Some Map.empty
   \<and> files (storage (logout u)) = [] \<and> \<not> loggedIn (logout u)
   \<and> items (storage (logout u)) = items (storage u)"
  by (simp add: logout_def set_info_def clearLocalFiles_def loggedIn_def info_def js_get_def)

lemma sync_merge_result:
  "fst (sync_merge merge env l u) = of_changes (fst (merge (Some l) (storage u)))"
  by (simp add: sync_merge_def Let_def split: prod.splits)

lemma sync_upload_keeps:
  "data (sync_upload env u) = data u \<and> storage (sync_upload env u) = storage u"
  by (simp add: sync_upload_def request_def Let_def split: option.splits)

lemma sync_merge_state:
  "data (snd (sync_merge merge env l u)) = data u
   \<and> storage (snd (sync_merge merge env l u)) = snd (merge (Some l) (storage u))"
  by (simp add: sync_merge_def Let_def sync_upload_keeps split: prod.splits)


text \<open>The three ways through \<^verbatim>\<open>syncFileList\<close>.\<close>

lemma syncFileList_anonymous:
  "\<not> loggedIn u \<Longrightarrow>
   syncFileList merge env u =
     (of_changes (fst (merge None (storage u))), u\<lparr>storage := snd (merge None (storage u))\<rparr>)"
  by (simp add: syncFileList_def split: prod.splits)

lemma syncFileList_401:
  "loggedIn u \<Longrightarrow> fails_401 env \<Longrightarrow>
   syncFileList merge env u =
     (\<lparr>incoming = Some True, outgoing = None, downloadCount = None\<rparr>,
      logout (request (GetFileList (bearerToken u)) u))"
  by (simp add: syncFileList_def fails_401_def Let_def split: sum.splits)

lemma syncFileList_not_401:
  "loggedIn u \<Longrightarrow> \<not> fails_401 env \<Longrightarrow>
   syncFileList merge env u =
     sync_merge merge env (remote_list env) (request (GetFileList (bearerToken u)) u)"
  by (simp add: syncFileList_def fails_401_def remote_list_def Let_def split: sum.splits)

lemma finishLogin_removes_oauthState:
  "items (storage (snd (finishLogin env code state u))) ''oauthState'' = None"
  by (simp add: finishLogin_def Let_def storage_remove_def request_def set_info_def
           split: sum.splits)

lemma finishLogin_success_erases_verifier:
  "fst (finishLogin env code state u) = Inr () \<Longrightarrow>
   storage_get ''pkceVerifier'' (storage (snd (finishLogin env code state u))) = Null"
  by (auto simp add: finishLogin_def Let_def storage_remove_def storage_get_def request_def
        set_info_def split: sum.splits if_splits)



lemma alice_loggedIn: "loggedIn alice"
  by (simp add: loggedIn_def info_def js_get_def alice_def)

lemma alice_store:
  "files (storage alice) = [file_a]"
  "items (storage alice) = Map.empty"
  "expiresAt file_a = 100"
  by (simp_all add: alice_def empty_storage_def file_a_def)

lemma pending_login_store:
  "storage_get ''oauthState'' (storage pending_login) = Str ''st8''"
  "storage_get ''pkceVerifier'' (storage pending_login) = Str ''ver1''"
  "net pending_login = []"
  "data pending_login = Map.empty"
  "user (storage pending_login) = None"
  by (simp_all add: pending_login_def constructor_def storage_set_def storage_get_def empty_storage_def)

lemma env_facts:
  "fails_401 env_401" "\<not> fails_401 env_offline" "\<not> fails_401 env_online"
  "remote_list env_offline = []" "remote_list env_online = [file_a]"
  "manifest env_offline = Inl (Error ''Failed to fetch'')"
  "encrypt_error env_offline = None"
  by (simp_all add: fails_401_def remote_list_def env_401_def env_offline_def env_online_def)

lemma alice_session:
  "bearerToken alice = Str ''tok''" "js_get (info alice) ''fileListKey'' = Str ''key''"
  "net alice = []"
  by (simp_all add: bearerToken_def info_def js_get_def alice_def)

lemma anonymous_session:
  "\<not> loggedIn anonymous" "files (storage anonymous) = [file_a]" "net anonymous = []"
  by (simp_all add: anonymous_def constructor_def loggedIn_def info_def js_get_def empty_storage_def)


section \<open>Finishing the login\<close>

text \<open>
  C2. When the \<open>state\<close> argument of \<^verbatim>\<open>finishLogin(code, state)\<close> differs from the stored
  \<^verbatim>\<open>oauthState\<close>, the call fails with the error \<^verbatim>\<open>state mismatch\<close>. Nothing but the removal of
  \<^verbatim>\<open>oauthState\<close> has happened by then: no request was made (neither the token exchange nor the
  userinfo fetch), and neither \<^verbatim>\<open>this.data\<close> nor the persisted user record was written.
\<close>

theorem finishLogin_state_mismatch:
  assumes "state \<noteq> storage_get ''oauthState'' (storage u)"
  shows "fst (finishLogin env code state u) = Inl (Error ''state mismatch'')
       \<and> snd (finishLogin env code state u) = u\<lparr>storage := storage_remove ''oauthState'' (storage u)\<rparr>
       \<and> net (snd (finishLogin env code state u)) = net u
       \<and> data (snd (finishLogin env code state u)) = data u
       \<and> user (storage (snd (finishLogin env code state u))) = user (storage u)"
  using assms by (simp add: finishLogin_def Let_def storage_remove_def)

text \<open>
  The theorem at a forged state, with a login pending.
\<close>

theorem finishLogin_state_mismatch_witness:
  "Str ''forged'' \<noteq> storage_get ''oauthState'' (storage pending_login)
   \<and> fst (finishLogin login_offline (Str ''code'') (Str ''forged'') pending_login)
       = Inl (Error ''state mismatch'')
   \<and> net (snd (finishLogin login_offline (Str ''code'') (Str ''forged'') pending_login)) = []
   \<and> data (snd (finishLogin login_offline (Str ''code'') (Str ''forged'') pending_login)) = Map.empty
   \<and> user (storage (snd (finishLogin login_offline (Str ''code'') (Str ''forged'') pending_login))) = None"
proof -
  have h: "Str ''forged'' \<noteq> storage_get ''oauthState'' (storage pending_login)"
    by (simp add: pending_login_store)
  from finishLogin_state_mismatch [OF h, of login_offline "Str ''code''"] h
  show ?thesis by (simp add: pending_login_store storage_remove_def)
qed

text \<open>
  C10. The stored OAuth state is single-use. Whatever its arguments and however it ends,
  a \<^verbatim>\<open>finishLogin\<close> call leaves no \<^verbatim>\<open>oauthState\<close> in the storage, so a later \<^verbatim>\<open>finishLogin\<close>
  called with the value that was stored fails the state check.
\<close>

theorem oauthState_single_use:
  assumes "storage_get ''oauthState'' (storage u) = Str v"
  shows "storage_get ''oauthState'' (storage (snd (finishLogin env code state u))) = Null
       \<and> fst (finishLogin env' code' (Str v) (snd (finishLogin env code state u)))
           = Inl (Error ''state mismatch'')"
proof -
  let ?u1 = "snd (finishLogin env code state u)"
  have g: "storage_get ''oauthState'' (storage ?u1) = Null"
    by (simp add: storage_get_def finishLogin_removes_oauthState)
  then have "Str v \<noteq> storage_get ''oauthState'' (storage ?u1)" by simp
  then have "fst (finishLogin env' code' (Str v) ?u1) = Inl (Error ''state mismatch'')"
    by (simp add: finishLogin_def Let_def)
  with g show ?thesis by simp
qed

text \<open>
  The theorem at a pending login: the first call passes the state check and fails at the
  token request, the second call presents the same state again.
\<close>

theorem oauthState_single_use_witness:
  "storage_get ''oauthState'' (storage pending_login) = Str ''st8''
   \<and> storage_get ''oauthState''
       (storage (snd (finishLogin login_offline (Str ''code'') (Str ''st8'') pending_login))) = Null
   \<and> fst (finishLogin login_offline (Str ''code'') (Str ''st8'')
            (snd (finishLogin login_offline (Str ''code'') (Str ''st8'') pending_login)))
       = Inl (Error ''state mismatch'')"
proof -
  have h: "storage_get ''oauthState'' (storage pending_login) = Str ''st8''"
    by (simp add: pending_login_store)
  from oauthState_single_use [OF h, of login_offline "Str ''code''" "Str ''st8''" login_offline "Str ''code''"] h
  show ?thesis by simp
qed

text \<open>
  C3 asks that the PKCE verifier be erased also when the exchange fails. The code removes
  \<^verbatim>\<open>pkceVerifier\<close> in the last statement of \<^verbatim>\<open>finishLogin\<close> only (lemma
  \<open>finishLogin_success_erases_verifier\<close> is the successful case), where \<^verbatim>\<open>oauthState\<close> is
  removed before anything can throw. Run on a pending login whose token request is rejected,
  \<^verbatim>\<open>finishLogin\<close> passes the state check, fails with the error of the request, and the verifier
  is still in the storage afterwards.
\<close>

theorem finishLogin_failed_exchange_keeps_verifier:
  "fst (finishLogin login_offline (Str ''code'') (Str ''st8'') pending_login) = Inl (Error ''Failed to fetch'')
   \<and> storage_get ''pkceVerifier'' (storage pending_login) = Str ''ver1''
   \<and> storage_get ''pkceVerifier''
       (storage (snd (finishLogin login_offline (Str ''code'') (Str ''st8'') pending_login))) = Str ''ver1''"
  by (simp add: finishLogin_def login_offline_def pending_login_def constructor_def storage_set_def
        storage_get_def storage_remove_def empty_storage_def request_def Let_def)

section \<open>Synchronising the file list\<close>

text \<open>
  C7. Without an access token \<^verbatim>\<open>syncFileList\<close> is local: it returns what the store's
  \<^verbatim>\<open>merge()\<close>, called without a list, reports, the store is the one that merge left, and no
  request is made.
\<close>

theorem syncFileList_unauthenticated:
  assumes "\<not> loggedIn u"
  shows "syncFileList merge env u =
           (of_changes (fst (merge None (storage u))), u\<lparr>storage := snd (merge None (storage u))\<rparr>)
       \<and> net (snd (syncFileList merge env u)) = net u"
  using assms by (simp add: syncFileList_anonymous)

text \<open>
  The theorem at a session without an account whose one file has expired.
\<close>

theorem syncFileList_unauthenticated_witness:
  "\<not> loggedIn anonymous
   \<and> fst (syncFileList (prune_merge 200) env_online anonymous)
       = \<lparr>incoming = Some False, outgoing = Some True, downloadCount = Some False\<rparr>
   \<and> files (storage (snd (syncFileList (prune_merge 200) env_online anonymous))) = []
   \<and> net (snd (syncFileList (prune_merge 200) env_online anonymous)) = []"
  using syncFileList_unauthenticated [OF anonymous_session(1), of "prune_merge 200" env_online]
  by (simp add: anonymous_session prune_merge_def of_changes_def alice_store)

text \<open>
  C1. When a logged-in session's manifest fetch or decrypt fails with the message \<^verbatim>\<open>401\<close>,
  \<^verbatim>\<open>syncFileList\<close> logs the session out, so that \<^verbatim>\<open>this.data\<close> and the persisted user record are
  the empty object and the local files are cleared, and it returns \<^verbatim>\<open>{incoming: true}\<close>. On
  every other way through \<^verbatim>\<open>syncFileList\<close>, failures included, \<^verbatim>\<open>this.data\<close> is untouched and the
  store is exactly the one the merge left: only the 401 path changes the session.
\<close>

theorem syncFileList_401_forces_logout:
  "(loggedIn u \<and> fails_401 env \<longrightarrow>
      fst (syncFileList merge env u) = \<lparr>incoming = Some True, outgoing = None, downloadCount = None\<rparr>
    \<and> snd (syncFileList merge env u) = logout (request (GetFileList (bearerToken u)) u)
    \<and> data (snd (syncFileList merge env u)) = Map.empty
    \<and> user (storage (snd (syncFileList merge env u))) = Some Map.empty
    \<and> files (storage (snd (syncFileList merge env u))) = []
    \<and> \<not> loggedIn (snd (syncFileList merge env u)))
   \<and> (\<not> (loggedIn u \<and> fails_401 env) \<longrightarrow>
      data (snd (syncFileList merge env u)) = data u
    \<and> (\<exists>l. storage (snd (syncFileList merge env u)) = snd (merge l (storage u))))"
proof (intro conjI impI)
  assume a: "\<not> (loggedIn u \<and> fails_401 env)"
  show "data (snd (syncFileList merge env u)) = data u"
  proof (cases "loggedIn u")
    case True
    with a show ?thesis by (simp add: syncFileList_not_401 sync_merge_state request_keeps)
  next
    case False
    then show ?thesis by (simp add: syncFileList_anonymous)
  qed
  show "\<exists>l. storage (snd (syncFileList merge env u)) = snd (merge l (storage u))"
  proof (cases "loggedIn u")
    case True
    with a have "storage (snd (syncFileList merge env u)) = snd (merge (Some (remote_list env)) (storage u))"
      by (simp add: syncFileList_not_401 sync_merge_state request_keeps)
    then show ?thesis ..
  next
    case False
    then have "storage (snd (syncFileList merge env u)) = snd (merge None (storage u))"
      by (simp add: syncFileList_anonymous)
    then show ?thesis ..
  qed
qed (simp_all add: syncFileList_401 logout_clears)

text \<open>
  The theorem at a logged-in session, once with a 401 and once with the network down.
\<close>

theorem syncFileList_401_forces_logout_witness:
  "loggedIn alice \<and> fails_401 env_401
   \<and> fst (syncFileList (prune_merge 50) env_401 alice)
       = \<lparr>incoming = Some True, outgoing = None, downloadCount = None\<rparr>
   \<and> data (snd (syncFileList (prune_merge 50) env_401 alice)) = Map.empty
   \<and> user (storage (snd (syncFileList (prune_merge 50) env_401 alice))) = Some Map.empty
   \<and> files (storage (snd (syncFileList (prune_merge 50) env_401 alice))) = []
   \<and> \<not> loggedIn (snd (syncFileList (prune_merge 50) env_401 alice))
   \<and> \<not> (loggedIn alice \<and> fails_401 env_offline)
   \<and> data (snd (syncFileList (prune_merge 50) env_offline alice)) = data alice"
  using syncFileList_401_forces_logout [of alice env_401 "prune_merge 50"]
        syncFileList_401_forces_logout [of alice env_offline "prune_merge 50"]
  by (simp add: alice_loggedIn env_facts logout_clears)

text \<open>
  C4. When a logged-in session's manifest fetch or decrypt fails with any message other than
  \<^verbatim>\<open>401\<close>, \<^verbatim>\<open>syncFileList\<close> goes on with the empty list: it returns what \<^verbatim>\<open>merge([])\<close> reports,
  the store is the one that merge left (it is not cleared), and the session stays logged in.
\<close>

theorem syncFileList_other_failure_degrades:
  assumes "loggedIn u" and "manifest env = Inl e" and "message e \<noteq> ''401''"
  shows "fst (syncFileList merge env u) = of_changes (fst (merge (Some []) (storage u)))
       \<and> storage (snd (syncFileList merge env u)) = snd (merge (Some []) (storage u))
       \<and> data (snd (syncFileList merge env u)) = data u"
proof -
  from assms have n: "\<not> fails_401 env" and r: "remote_list env = []"
    by (simp_all add: fails_401_def remote_list_def)
  show ?thesis
    using assms(1) n r by (simp add: syncFileList_not_401 sync_merge_result sync_merge_state request_keeps)
qed

text \<open>
  The theorem at a logged-in session with the network down: the file is still there.
\<close>

theorem syncFileList_other_failure_degrades_witness:
  "loggedIn alice \<and> manifest env_offline = Inl (Error ''Failed to fetch'')
   \<and> message (Error ''Failed to fetch'') \<noteq> ''401''
   \<and> fst (syncFileList (prune_merge 50) env_offline alice)
       = \<lparr>incoming = Some False, outgoing = Some False, downloadCount = Some False\<rparr>
   \<and> files (storage (snd (syncFileList (prune_merge 50) env_offline alice))) = [file_a]
   \<and> data (snd (syncFileList (prune_merge 50) env_offline alice)) = data alice"
proof -
  have m: "message (Error ''Failed to fetch'') \<noteq> ''401''" by simp
  from syncFileList_other_failure_degrades [OF alice_loggedIn env_facts(6) m, of "prune_merge 50"]
  show ?thesis
    by (simp add: alice_loggedIn env_facts prune_merge_def of_changes_def alice_store)
qed

text \<open>
  C8. When the merge of a logged-in session reports \<^verbatim>\<open>outgoing\<close>, the files of the merged store
  are serialised, encrypted with \<^verbatim>\<open>fileListKey\<close> and sent with \<^verbatim>\<open>setFileList\<close> under the bearer
  token. Whether the encryption or the upload throws or not, the call returns what the merge
  reported and leaves the store the merge left; when the encryption throws, nothing is sent.
\<close>

theorem syncFileList_outgoing_upload:
  assumes "loggedIn u" and "\<not> fails_401 env"
    and "c_outgoing (fst (merge (Some (remote_list env)) (storage u)))"
  shows "fst (syncFileList merge env u) = of_changes (fst (merge (Some (remote_list env)) (storage u)))
       \<and> storage (snd (syncFileList merge env u)) = snd (merge (Some (remote_list env)) (storage u))
       \<and> data (snd (syncFileList merge env u)) = data u
       \<and> net (snd (syncFileList merge env u)) =
           net u @ [GetFileList (bearerToken u)]
           @ (case encrypt_error env of
                None \<Rightarrow> [SetFileList (bearerToken u)
                           (Encrypted (js_get (info u) ''fileListKey'')
                              (files (snd (merge (Some (remote_list env)) (storage u)))))]
              | Some e \<Rightarrow> [])"
proof -
  have "net (snd (syncFileList merge env u)) =
           net u @ [GetFileList (bearerToken u)]
           @ (case encrypt_error env of
                None \<Rightarrow> [SetFileList (bearerToken u)
                           (Encrypted (js_get (info u) ''fileListKey'')
                              (files (snd (merge (Some (remote_list env)) (storage u)))))]
              | Some e \<Rightarrow> [])"
    using assms
    by (simp add: syncFileList_not_401 sync_merge_def sync_upload_def request_def Let_def
          bearerToken_def info_def case_prod_beta split: option.splits)
  with assms(1,2) show ?thesis
    by (simp add: syncFileList_not_401 sync_merge_result sync_merge_state request_keeps)
qed

text \<open>
  The theorem at a logged-in session whose file has expired, with the network down: the
  upload is attempted and fails, the result is the merge's.
\<close>

theorem syncFileList_outgoing_upload_witness:
  "loggedIn alice \<and> \<not> fails_401 env_offline
   \<and> c_outgoing (fst (prune_merge 200 (Some (remote_list env_offline)) (storage alice)))
   \<and> upload_error env_offline = Some (Error ''Failed to fetch'')
   \<and> fst (syncFileList (prune_merge 200) env_offline alice)
       = \<lparr>incoming = Some False, outgoing = Some True, downloadCount = Some False\<rparr>
   \<and> files (storage (snd (syncFileList (prune_merge 200) env_offline alice))) = []
   \<and> net (snd (syncFileList (prune_merge 200) env_offline alice))
       = [GetFileList (Str ''tok''), SetFileList (Str ''tok'') (Encrypted (Str ''key'') [])]"
proof -
  have o: "c_outgoing (fst (prune_merge 200 (Some (remote_list env_offline)) (storage alice)))"
    by (simp add: prune_merge_def alice_store)
  have u: "upload_error env_offline = Some (Error ''Failed to fetch'')"
    by (simp add: env_offline_def)
  from syncFileList_outgoing_upload
         [where merge = "prune_merge 200" and env = env_offline and u = alice,
          OF alice_loggedIn env_facts(2) o] o u
  show ?thesis
    by (simp add: alice_loggedIn env_facts prune_merge_def of_changes_def alice_store alice_session)
qed







section \<open>Cancelled transfers\<close>



end
